theory Spec2Isabelle
  imports Main "HOL-Library.Sublist"
begin

section \<open>Strings and the file system\<close>

text \<open>
  The router of SYSTEM-ROUTING-LOGIC.md is Python. Free text (the user's message, the
  content of a file) is a Python \<open>str\<close>, a sequence of Unicode code points, and the
  keywords it is searched for are Korean: such text is a list of code points. Agent names,
  request types, file paths and messages built by the router are ASCII and are kept as
  \<open>string\<close>. Python's \<open>kw in message\<close> is \<^const>\<open>sublist\<close>, \<open>endswith\<close> is
  \<^const>\<open>suffix\<close>.
\<close>

type_synonym unicode = "nat list"

text \<open>
  \<open>exists\<close> and \<open>read_file\<close> are used by the router and defined nowhere in the sources:
  they are the file system the router looks at, a parameter of every function that calls them.
\<close>

record filesystem =
  exists :: "string \<Rightarrow> bool"
  read_file :: "string \<Rightarrow> unicode"

text \<open>\<open>raise Error(msg)\<close>\<close>

datatype error = Error string

text \<open>\<open>sep.join(xs)\<close>\<close>

fun join :: "string \<Rightarrow> string list \<Rightarrow> string" where
  "join sep [] = []"
| "join sep [x] = x"
| "join sep (x # y # ys) = x @ sep @ join sep (y # ys)"

section \<open>Rule 3: the UI agent must complete the mandatory files\<close>

text \<open>The marker \<open>"<U+1F50C> INTEGRATION POINT"\<close> searched for in api.ts.\<close>

definition INTEGRATION_POINT :: unicode where
  "INTEGRATION_POINT =
     [0x1F50C, 0x20, 0x49, 0x4E, 0x54, 0x45, 0x47, 0x52, 0x41, 0x54, 0x49, 0x4F, 0x4E,
      0x20, 0x50, 0x4F, 0x49, 0x4E, 0x54]"

definition verify_ui_completion :: "filesystem \<Rightarrow> string \<Rightarrow> bool \<times> string list" where
  "verify_ui_completion fs feature_path =
     (let missing = [];
          missing = (if \<not> exists fs (feature_path @ ''/types.ts'')
                     then missing @ [''types.ts''] else missing);
          missing = (if \<not> exists fs (feature_path @ ''/api.ts'')
                     then missing @ [''api.ts''] else missing);
          missing = (if \<not> exists fs (feature_path @ ''/components/'')
                     then missing @ [''components/''] else missing);
          missing = (if exists fs (feature_path @ ''/api.ts'')
                     then (let content = read_file fs (feature_path @ ''/api.ts'')
                           in if \<not> sublist INTEGRATION_POINT content
                              then missing @ [''api.ts (missing TODO markers)'']
                              else missing)
                     else missing)
      in (length missing = 0, missing))"

section \<open>Conflict prevention\<close>

text \<open>
  \<open>before_create_file\<close> raises or prints; the model returns the error, or the lines
  printed. Each of its two blocks is three nested \<open>if\<close>s with no \<open>else\<close>, a conjunction;
  when the first block does not raise, the second is tried.
\<close>

definition before_create_file :: "filesystem \<Rightarrow> string \<Rightarrow> string \<Rightarrow> error + string list" where
  "before_create_file fs agent file_path =
     (if suffix ''api.ts'' file_path \<and> exists fs file_path
         \<and> agent = ''feature-logic-implementer''
      then Inl (Error (''FORBIDDEN: feature-logic-implementer cannot create api.ts. ''
                       @ ''This file already exists and should only be modified, not replaced.''))
      else if suffix ''types.ts'' file_path \<and> exists fs file_path
              \<and> agent = ''feature-logic-implementer''
      then Inr [''WARNING: Extending existing types.ts. Do not delete existing types.'']
      else Inr [])"

text \<open>
  \<open>verify_api_signature_unchanged\<close>: the two dictionaries of signatures come from
  \<open>extract_function_signatures\<close>, which the sources do not define; it is a parameter. A
  dictionary is an association list in insertion order, the order the loop visits the
  original functions in; the modified one is only looked up.
\<close>

fun check_signatures :: "(string \<times> string) list \<Rightarrow> (string \<rightharpoonup> string) \<Rightarrow> error + unit" where
  "check_signatures [] modified_signatures = Inr ()"
| "check_signatures ((func_name, original) # rest) modified_signatures =
     (case modified_signatures func_name of
        None \<Rightarrow> Inl (Error (''Function '' @ func_name @ '' was removed from api.ts''))
      | Some modified \<Rightarrow>
          if original \<noteq> modified
          then Inl (Error (''Function signature changed: '' @ func_name @ [CHR 0x0A]
                           @ ''Original: '' @ original @ [CHR 0x0A]
                           @ ''Modified: '' @ modified @ [CHR 0x0A]
                           @ ''FORBIDDEN: You must keep the exact signature that UI expects.''))
          else check_signatures rest modified_signatures)"

definition verify_api_signature_unchanged ::
    "(unicode \<Rightarrow> (string \<times> string) list) \<Rightarrow> unicode \<Rightarrow> unicode \<Rightarrow> error + unit" where
  "verify_api_signature_unchanged extract_function_signatures original_api modified_api =
     (let original_signatures = extract_function_signatures original_api;
          modified_signatures = extract_function_signatures modified_api
      in check_signatures original_signatures (map_of modified_signatures))"

section \<open>The router\<close>

text \<open>
  The methods \<open>extract_feature_path\<close> and \<open>needs_ui_changes\<close> of \<open>AgentRouter\<close> are called
  and not defined in the sources: they are the fields of \<open>self\<close>.
\<close>

record 'c router =
  extract_feature_path :: "unicode \<Rightarrow> 'c \<Rightarrow> string"
  needs_ui_changes :: "unicode \<Rightarrow> bool"

text \<open>
  The five \<open>ui_keywords\<close> (\<open>"UI"\<close> and four Korean words) and the five
  \<open>backend_keywords\<close> (\<open>"Supabase"\<close>, \<open>"API"\<close> and three Korean words), as code points, in
  the order of the source.
\<close>

definition ui_keywords :: "unicode list" where
  "ui_keywords =
     [[0x55, 0x49],
      [0xB514, 0xC790, 0xC778],
      [0xB808, 0xC774, 0xC544, 0xC6C3],
      [0xCEF4, 0xD3EC, 0xB10C, 0xD2B8],
      [0xD654, 0xBA74]]"

definition backend_keywords :: "unicode list" where
  "backend_keywords =
     [[0x53, 0x75, 0x70, 0x61, 0x62, 0x61, 0x73, 0x65],
      [0x41, 0x50, 0x49],
      [0xB85C, 0xC9C1],
      [0xB370, 0xC774, 0xD130, 0xBCA0, 0xC774, 0xC2A4],
      [0xCFFC, 0xB9AC]]"

text \<open>The two markers of a modification, U+C218 U+C815 and U+CD94 U+AC00.\<close>

definition classify_request :: "unicode \<Rightarrow> string" where
  "classify_request message =
     (let has_ui = list_ex (\<lambda>kw. sublist kw message) ui_keywords;
          has_backend = list_ex (\<lambda>kw. sublist kw message) backend_keywords
      in if has_ui \<and> \<not> has_backend then ''ui_only''
         else if has_backend \<and> \<not> has_ui then ''backend_only''
         else if sublist [0xC218, 0xC815] message \<or> sublist [0xCD94, 0xAC00] message
              then ''modify_existing''
         else ''full_feature'')"

record existing_files =
  types_exists :: bool
  api_exists :: bool
  components_exist :: bool
  ui_complete :: bool

definition check_existing_files :: "filesystem \<Rightarrow> string \<Rightarrow> existing_files" where
  "check_existing_files fs feature_path =
     \<lparr> types_exists = exists fs (feature_path @ ''/types.ts''),
       api_exists = exists fs (feature_path @ ''/api.ts''),
       components_exist = exists fs (feature_path @ ''/components/''),
       ui_complete = (exists fs (feature_path @ ''/types.ts'')
                      \<and> exists fs (feature_path @ ''/api.ts'')
                      \<and> exists fs (feature_path @ ''/components/'')) \<rparr>"

definition route_request :: "'c router \<Rightarrow> filesystem \<Rightarrow> unicode \<Rightarrow> 'c \<Rightarrow> string" where
  "route_request self fs user_message context =
     (let request_type = classify_request user_message;
          feature_path = extract_feature_path self user_message context;
          files_exist = check_existing_files fs feature_path
      in if request_type = ''full_feature''
         then (if \<not> ui_complete files_exist then ''ui-implementer''
               else ''feature-logic-implementer'')
         else if request_type = ''ui_only''
         then ''ui-implementer''
         else if request_type = ''backend_only''
         then (if \<not> ui_complete files_exist then ''error:missing_ui_foundation''
               else ''feature-logic-implementer'')
         else if request_type = ''modify_existing''
         then (if needs_ui_changes self user_message then ''ui-implementer''
               else ''feature-logic-implementer'')
         else ''ui-implementer'')"

definition verify_prerequisites :: "filesystem \<Rightarrow> string \<Rightarrow> string \<Rightarrow> bool \<times> string" where
  "verify_prerequisites fs agent feature_path =
     (if agent = ''feature-logic-implementer''
      then (let files = check_existing_files fs feature_path
            in if \<not> ui_complete files
               then (let missing = [];
                         missing = (if \<not> types_exists files
                                    then missing @ [''types.ts''] else missing);
                         missing = (if \<not> api_exists files
                                    then missing @ [''api.ts''] else missing);
                         missing = (if \<not> components_exist files
                                    then missing @ [''components/''] else missing);
                         error_msg =
                           ''Cannot run feature-logic-implementer. Missing files:'' @ [CHR 0x0A]
                           @ join '', '' missing @ [CHR 0x0A, CHR 0x0A]
                           @ ''Please run ui-implementer first to create the foundation.''
                     in (False, error_msg))
               else (True, ''''))
      else (True, ''''))"

definition verify_completion :: "filesystem \<Rightarrow> string \<Rightarrow> string \<Rightarrow> bool \<times> string" where
  "verify_completion fs agent feature_path =
     (if agent = ''ui-implementer''
      then (let (is_complete, missing) = verify_ui_completion fs feature_path
            in if \<not> is_complete
               then (let error_msg =
                           ''Cannot complete task. Missing required files:'' @ [CHR 0x0A]
                           @ join '', '' missing @ [CHR 0x0A, CHR 0x0A]
                           @ ''You must create all mandatory files before completing.''
                     in (False, error_msg))
               else (True, ''''))
      else (True, ''''))"

section \<open>Metrics\<close>

text \<open>The dictionary \<open>METRICS\<close> of counters, all zero at the start.\<close>

record metrics =
  total_requests :: int
  routed_to_ui :: int
  routed_to_backend :: int
  blocked_missing_prerequisites :: int
  blocked_incomplete_ui :: int
  blocked_file_conflicts :: int
  successful_collaborations :: int

definition METRICS :: metrics where
  "METRICS =
     \<lparr> total_requests = 0, routed_to_ui = 0, routed_to_backend = 0,
       blocked_missing_prerequisites = 0, blocked_incomplete_ui = 0,
       blocked_file_conflicts = 0, successful_collaborations = 0 \<rparr>"

text \<open>The five counters of routing outcomes, in the order of \<open>METRICS\<close>.\<close>

definition routing_counters :: "metrics \<Rightarrow> int list" where
  "routing_counters m =
     [routed_to_ui m, routed_to_backend m, blocked_missing_prerequisites m,
      blocked_incomplete_ui m, blocked_file_conflicts m]"

text \<open>
  Modelled from the spec: the state that \<open>route\<close> threads through its calls. The code that
  updates \<open>METRICS\<close> and keeps the history (agent_router.py, monitoring.py) is not among
  the sources, which only declare the counters; \<open>route_request\<close> above is pure. The spec
  has the counters and an append-only history of entries; an entry is the request and its
  decision (timestamps are left out).
\<close>

record gatekeeper =
  counters :: metrics
  history :: "(unicode \<times> string) list"

text \<open>
  Modelled from the spec: the update of the counters, missing from the sources as said
  above. The spec says that every decision increments the corresponding counter and that
  \<open>total_requests\<close> increments on every call: an assignment to the UI agent counts in
  \<open>routed_to_ui\<close>, an assignment to the logic agent in \<open>routed_to_backend\<close>, and the
  blocked outcome \<open>error:missing_ui_foundation\<close> in \<open>blocked_missing_prerequisites\<close>.
\<close>

definition record_decision :: "string \<Rightarrow> metrics \<Rightarrow> metrics" where
  "record_decision decision m =
     (let m = m\<lparr>total_requests := total_requests m + 1\<rparr>
      in if decision = ''ui-implementer''
         then m\<lparr>routed_to_ui := routed_to_ui m + 1\<rparr>
         else if decision = ''feature-logic-implementer''
         then m\<lparr>routed_to_backend := routed_to_backend m + 1\<rparr>
         else if decision = ''error:missing_ui_foundation''
         then m\<lparr>blocked_missing_prerequisites := blocked_missing_prerequisites m + 1\<rparr>
         else m)"

text \<open>
  Modelled from the spec: \<open>route\<close> with its bookkeeping, missing from the sources as said
  above. The decision is the one \<open>route_request\<close> computes; it is counted and appended to
  the history.
\<close>

definition route ::
    "'c router \<Rightarrow> filesystem \<Rightarrow> unicode \<Rightarrow> 'c \<Rightarrow> gatekeeper \<Rightarrow> string \<times> gatekeeper" where
  "route self fs user_message context g =
     (let decision = route_request self fs user_message context
      in (decision,
          \<lparr> counters = record_decision decision (counters g),
            history = history g @ [(user_message, decision)] \<rparr>))"

section \<open>Sample inputs\<close>

text \<open>
  The feature \<open>app/auth\<close> of the test cases of SYSTEM-ROUTING-LOGIC.md: with no file at
  all, with \<open>types.ts\<close> only (test case 3), with the three foundation files and the marker
  in \<open>api.ts\<close>, and with the three files and no marker.
\<close>

definition no_files :: filesystem where
  "no_files = \<lparr> exists = (\<lambda>p. False), read_file = (\<lambda>p. []) \<rparr>"

definition auth_types_only :: filesystem where
  "auth_types_only =
     \<lparr> exists = (\<lambda>p. p = ''app/auth/types.ts''), read_file = (\<lambda>p. []) \<rparr>"

definition auth_foundation :: filesystem where
  "auth_foundation =
     \<lparr> exists = (\<lambda>p. p \<in> set [''app/auth/types.ts'', ''app/auth/api.ts'',
                                ''app/auth/components/'']),
       read_file = (\<lambda>p. if p = ''app/auth/api.ts'' then 0x2F # 0x2F # 0x20 # INTEGRATION_POINT
                          else []) \<rparr>"

definition auth_unmarked :: filesystem where
  "auth_unmarked =
     \<lparr> exists = (\<lambda>p. p \<in> set [''app/auth/types.ts'', ''app/auth/api.ts'',
                                ''app/auth/components/'']),
       read_file = (\<lambda>p. []) \<rparr>"

text \<open>
  A router whose feature path is the \<open>current_path\<close> of the context, as in the test cases,
  and for which no request needs UI changes; and the context of the test cases.
\<close>

definition test_router :: "(string \<times> string) list router" where
  "test_router =
     \<lparr> extract_feature_path =
         (\<lambda>user_message context.
            case map_of context ''current_path'' of Some p \<Rightarrow> p | None \<Rightarrow> ''app''),
       needs_ui_changes = (\<lambda>user_message. False) \<rparr>"

definition test_context :: "(string \<times> string) list" where
  "test_context = [(''current_path'', ''app/auth'')]"

text \<open>
  Two versions of an \<open>api.ts\<close>, told apart by their first code point, and a signature
  extractor for them: the second version adds \<open>updateTimeSlot\<close> to the \<open>getTimeSlots\<close>
  of the first.
\<close>

definition api_before :: unicode where
  "api_before = [0x31]"

definition api_after :: unicode where
  "api_after = [0x32]"

definition sample_signatures :: "unicode \<Rightarrow> (string \<times> string) list" where
  "sample_signatures content =
     (if content = api_before
      then [(''getTimeSlots'', ''(): Promise<TimeSlot[]>'')]
      else if content = api_after
      then [(''getTimeSlots'', ''(): Promise<TimeSlot[]>''),
            (''updateTimeSlot'', ''(id: string): Promise<void>'')]
      else [])"

section \<open>Facts shared by the proofs\<close>

lemma classify_request_cases:
  "classify_request m = ''ui_only'' \<or> classify_request m = ''backend_only''
   \<or> classify_request m = ''modify_existing'' \<or> classify_request m = ''full_feature''"
  by (simp add: classify_request_def Let_def)

lemma route_request_cases:
  "route_request self fs m ctx = ''ui-implementer''
   \<or> route_request self fs m ctx = ''feature-logic-implementer''
   \<or> route_request self fs m ctx = ''error:missing_ui_foundation''"
  by (simp add: route_request_def Let_def)

text \<open>The messages \<open>""\<close>, \<open>"UI"\<close>, \<open>"API"\<close> and the Korean word for "add" (U+CD94 U+AC00).\<close>

lemma classify_empty: "classify_request [] = ''full_feature''"
  by (simp add: classify_request_def ui_keywords_def backend_keywords_def sublist_code Let_def)

lemma classify_UI: "classify_request [0x55, 0x49] = ''ui_only''"
  by (simp add: classify_request_def ui_keywords_def backend_keywords_def sublist_code Let_def)

lemma classify_API: "classify_request [0x41, 0x50, 0x49] = ''backend_only''"
  by (simp add: classify_request_def ui_keywords_def backend_keywords_def sublist_code Let_def)

lemma classify_add: "classify_request [0xCD94, 0xAC00] = ''modify_existing''"
  by (simp add: classify_request_def ui_keywords_def backend_keywords_def sublist_code Let_def)

lemma no_files_incomplete: "\<not> ui_complete (check_existing_files no_files p)"
  by (simp add: check_existing_files_def no_files_def)

lemma auth_foundation_complete: "ui_complete (check_existing_files auth_foundation ''app/auth'')"
  by (simp add: check_existing_files_def auth_foundation_def)

lemma test_feature_path: "extract_feature_path test_router m test_context = ''app/auth''"
  by (simp add: test_router_def test_context_def)

text \<open>
  The loop over the original signatures succeeds exactly when every original function is
  still there with the signature it had, and looks at nothing else in the modified file.
\<close>

lemma check_signatures_ok_iff:
  "check_signatures original modified = Inr ()
   \<longleftrightarrow> (\<forall>(func_name, s) \<in> set original. modified func_name = Some s)"
  by (induction original) (auto split: option.splits if_splits)

lemma check_signatures_only_originals:
  "(\<forall>func_name \<in> fst ` set original. modified func_name = modified' func_name) \<Longrightarrow>
   check_signatures original modified = check_signatures original modified'"
  by (induction original) (auto split: option.splits if_splits)

section \<open>The test cases of the document\<close>

text \<open>
  The three test cases of SYSTEM-ROUTING-LOGIC.md hold of the model. Test case 1: a
  request for a sign-up feature (no keyword) on \<open>app/auth\<close> with no file goes to the UI
  agent, and once the three files are there, a request naming Supabase goes to the logic
  agent.
\<close>

lemma test_first_feature_request:
  "route_request test_router no_files
     [0xD68C, 0xC6D0, 0xAC00, 0xC785, 0x20, 0xAE30, 0xB2A5, 0x20, 0xB9CC, 0xB4E4, 0xC5B4, 0xC918]
     test_context = ''ui-implementer''"
  "route_request test_router auth_foundation
     [0xC774, 0xC81C, 0x20, 0x53, 0x75, 0x70, 0x61, 0x62, 0x61, 0x73, 0x65, 0x20,
      0xC5F0, 0xACB0, 0xD574, 0xC918]
     test_context = ''feature-logic-implementer''"
  by (simp_all add: route_request_def classify_request_def ui_keywords_def
        backend_keywords_def sublist_code Let_def test_router_def test_context_def
        check_existing_files_def no_files_def auth_foundation_def)

text \<open>Test case 2: with no file the logic agent cannot run, and the error says so.\<close>

lemma test_backend_first_blocked:
  "\<not> fst (verify_prerequisites no_files ''feature-logic-implementer'' ''app/auth'')"
  "sublist ''Missing files''
     (snd (verify_prerequisites no_files ''feature-logic-implementer'' ''app/auth''))"
  by (simp_all add: verify_prerequisites_def check_existing_files_def no_files_def
        sublist_code Let_def)

text \<open>
  Test case 3: with \<open>types.ts\<close> alone the UI agent cannot complete, and the error names
  \<open>api.ts\<close> and \<open>components/\<close>.
\<close>

lemma test_ui_incomplete:
  "\<not> fst (verify_completion auth_types_only ''ui-implementer'' ''app/auth'')"
  "sublist ''api.ts'' (snd (verify_completion auth_types_only ''ui-implementer'' ''app/auth''))"
  "sublist ''components/''
     (snd (verify_completion auth_types_only ''ui-implementer'' ''app/auth''))"
  by (simp_all add: verify_completion_def verify_ui_completion_def auth_types_only_def
        sublist_code Let_def)

section \<open>Routing\<close>

text \<open>
  C8. A request classified \<open>ui_only\<close> is routed to \<open>ui-implementer\<close>, whatever the files of
  the feature are, whatever the feature path and the context.
\<close>

theorem ui_only_routes_to_ui:
  "classify_request m = ''ui_only'' \<Longrightarrow> route_request self fs m ctx = ''ui-implementer''"
  by (simp add: route_request_def Let_def)

text \<open>The request \<open>"UI"\<close>, on a complete foundation and on no file at all.\<close>

theorem ui_only_routes_to_ui_witness:
  "classify_request [0x55, 0x49] = ''ui_only''
   \<and> ui_complete (check_existing_files auth_foundation ''app/auth'')
   \<and> route_request test_router auth_foundation [0x55, 0x49] test_context = ''ui-implementer''
   \<and> route_request test_router no_files [0x55, 0x49] test_context = ''ui-implementer''"
  using ui_only_routes_to_ui [OF classify_UI, of test_router auth_foundation test_context]
    ui_only_routes_to_ui [OF classify_UI, of test_router no_files test_context]
  by (simp add: classify_UI auth_foundation_complete)

text \<open>
  C1, as the code has it. A request classified \<open>modify_existing\<close> is routed to
  \<open>ui-implementer\<close> when it needs UI changes and to \<open>feature-logic-implementer\<close> otherwise:
  this branch does not look at the files, so the logic agent is also chosen when the
  foundation is incomplete.
\<close>

theorem modify_existing_route:
  "classify_request m = ''modify_existing'' \<Longrightarrow>
   route_request self fs m ctx =
     (if needs_ui_changes self m then ''ui-implementer'' else ''feature-logic-implementer'')"
  by (simp add: route_request_def Let_def)

theorem modify_existing_route_witness:
  "classify_request [0xCD94, 0xAC00] = ''modify_existing''
   \<and> route_request test_router auth_foundation [0xCD94, 0xAC00] test_context
       = ''feature-logic-implementer''"
  using modify_existing_route [OF classify_add, of test_router auth_foundation test_context]
  by (simp add: classify_add test_router_def)

text \<open>
  C1, as the claim has it, fails: the request "add" on a feature with no file needs no UI
  change, the foundation is incomplete, and the request goes to \<open>feature-logic-implementer\<close>,
  not to \<open>ui-implementer\<close>.
\<close>

theorem modify_existing_incomplete_counterexample:
  "classify_request [0xCD94, 0xAC00] = ''modify_existing''
   \<and> \<not> needs_ui_changes test_router [0xCD94, 0xAC00]
   \<and> \<not> ui_complete (check_existing_files no_files
           (extract_feature_path test_router [0xCD94, 0xAC00] test_context))
   \<and> route_request test_router no_files [0xCD94, 0xAC00] test_context
       = ''feature-logic-implementer''
   \<and> route_request test_router no_files [0xCD94, 0xAC00] test_context \<noteq> ''ui-implementer''"
  by (simp add: route_request_def classify_add Let_def no_files_incomplete)
    (simp add: test_router_def)

text \<open>
  C10. \<open>route_request\<close> returns the blocked outcome \<open>error:missing_ui_foundation\<close> exactly
  when the request is classified \<open>backend_only\<close> and the foundation files are incomplete;
  a request of any other class, the default branch included, is assigned to one of the two
  agents.
\<close>

theorem blocked_only_backend_without_foundation:
  "(route_request self fs m ctx = ''error:missing_ui_foundation''
      \<longleftrightarrow> classify_request m = ''backend_only''
          \<and> \<not> ui_complete (check_existing_files fs (extract_feature_path self m ctx)))
   \<and> (classify_request m \<noteq> ''backend_only''
      \<longrightarrow> route_request self fs m ctx = ''ui-implementer''
          \<or> route_request self fs m ctx = ''feature-logic-implementer'')"
  by (simp add: route_request_def Let_def)

text \<open>
  The request \<open>"API"\<close> is blocked on no file and assigned on a complete foundation; the
  request \<open>"UI"\<close> is assigned on no file.
\<close>

theorem blocked_only_backend_without_foundation_witness:
  "route_request test_router no_files [0x41, 0x50, 0x49] test_context
     = ''error:missing_ui_foundation''
   \<and> route_request test_router auth_foundation [0x41, 0x50, 0x49] test_context
       \<noteq> ''error:missing_ui_foundation''
   \<and> (route_request test_router no_files [0x55, 0x49] test_context = ''ui-implementer''
      \<or> route_request test_router no_files [0x55, 0x49] test_context
          = ''feature-logic-implementer'')"
  using blocked_only_backend_without_foundation
          [of test_router no_files "[0x41, 0x50, 0x49]" test_context]
    blocked_only_backend_without_foundation
          [of test_router auth_foundation "[0x41, 0x50, 0x49]" test_context]
    blocked_only_backend_without_foundation
          [of test_router no_files "[0x55, 0x49]" test_context]
  by (simp add: classify_API classify_UI no_files_incomplete test_feature_path
        auth_foundation_complete)

text \<open>
  C5, as the code has it. The empty message matches no keyword and no marker: it is
  classified \<open>full_feature\<close> and routed like any other full feature, to \<open>ui-implementer\<close>
  when the foundation is incomplete and to \<open>feature-logic-implementer\<close> when it is
  complete. Nothing is rejected.
\<close>

theorem empty_intent_is_routed:
  "classify_request [] = ''full_feature''
   \<and> route_request self fs [] ctx =
       (if ui_complete (check_existing_files fs (extract_feature_path self [] ctx))
        then ''feature-logic-implementer'' else ''ui-implementer'')"
  by (simp add: route_request_def classify_empty Let_def)

theorem empty_intent_is_routed_witness:
  "route_request test_router auth_foundation [] test_context = ''feature-logic-implementer''"
  using empty_intent_is_routed [of test_router auth_foundation test_context]
  by (simp add: test_feature_path auth_foundation_complete)

text \<open>
  C5, as the claim has it, fails: the empty message on a feature with no file is given the
  default class and assigned to \<open>ui-implementer\<close>.
\<close>

theorem empty_intent_counterexample:
  "classify_request [] = ''full_feature''
   \<and> route_request test_router no_files [] test_context = ''ui-implementer''"
  by (simp add: route_request_def classify_empty Let_def no_files_incomplete)

section \<open>Prerequisites and completion\<close>

text \<open>
  C3. For the UI agent \<open>verify_prerequisites\<close> succeeds on every file system. For the logic
  agent, when one of \<open>types.ts\<close>, \<open>api.ts\<close>, \<open>components/\<close> is absent, it fails, and the
  message lists, joined by commas, the names of the absent ones in that order: the set
  listed is the set of the absent files, no more and no less.
\<close>

theorem prerequisites_list_exactly_the_missing:
  "verify_prerequisites fs ''ui-implementer'' feature_path = (True, '''')
   \<and> (\<not> (exists fs (feature_path @ ''/types.ts'') \<and> exists fs (feature_path @ ''/api.ts'')
           \<and> exists fs (feature_path @ ''/components/'')) \<longrightarrow>
        (\<exists>missing.
           verify_prerequisites fs ''feature-logic-implementer'' feature_path
             = (False,
                ''Cannot run feature-logic-implementer. Missing files:'' @ [CHR 0x0A]
                @ join '', '' missing @ [CHR 0x0A, CHR 0x0A]
                @ ''Please run ui-implementer first to create the foundation.'')
           \<and> missing = filter (\<lambda>name. \<not> exists fs (feature_path @ ''/'' @ name))
                          [''types.ts'', ''api.ts'', ''components/'']
           \<and> set missing = {name \<in> {''types.ts'', ''api.ts'', ''components/''}.
                               \<not> exists fs (feature_path @ ''/'' @ name)}))"
  by (auto simp add: verify_prerequisites_def check_existing_files_def Let_def)

text \<open>Test case 3: \<open>app/auth\<close> holds \<open>types.ts\<close> only.\<close>

theorem prerequisites_list_exactly_the_missing_witness:
  "verify_prerequisites auth_types_only ''ui-implementer'' ''app/auth'' = (True, '''')
   \<and> verify_prerequisites auth_types_only ''feature-logic-implementer'' ''app/auth''
       = (False,
          ''Cannot run feature-logic-implementer. Missing files:'' @ [CHR 0x0A]
          @ ''api.ts, components/'' @ [CHR 0x0A, CHR 0x0A]
          @ ''Please run ui-implementer first to create the foundation.'')"
  using prerequisites_list_exactly_the_missing [of auth_types_only "''app/auth''"]
  by (simp add: auth_types_only_def)

text \<open>
  C4. For the UI agent \<open>verify_completion\<close> succeeds if and only if \<open>types.ts\<close>, \<open>api.ts\<close>
  and \<open>components/\<close> exist and the content of \<open>api.ts\<close> contains the integration-point
  marker. With the three files and no marker it fails.
\<close>

theorem completion_needs_files_and_markers:
  "(verify_completion fs ''ui-implementer'' feature_path = (True, '''')
      \<longleftrightarrow> exists fs (feature_path @ ''/types.ts'') \<and> exists fs (feature_path @ ''/api.ts'')
          \<and> exists fs (feature_path @ ''/components/'')
          \<and> sublist INTEGRATION_POINT (read_file fs (feature_path @ ''/api.ts'')))
   \<and> (fst (verify_completion fs ''ui-implementer'' feature_path)
      \<longleftrightarrow> exists fs (feature_path @ ''/types.ts'') \<and> exists fs (feature_path @ ''/api.ts'')
          \<and> exists fs (feature_path @ ''/components/'')
          \<and> sublist INTEGRATION_POINT (read_file fs (feature_path @ ''/api.ts'')))"
  by (auto simp add: verify_completion_def verify_ui_completion_def Let_def)

text \<open>
  The foundation with the marker is complete; the three files without the marker are not,
  nor is \<open>types.ts\<close> alone.
\<close>

theorem completion_needs_files_and_markers_witness:
  "verify_completion auth_foundation ''ui-implementer'' ''app/auth'' = (True, '''')
   \<and> exists auth_unmarked ''app/auth/types.ts'' \<and> exists auth_unmarked ''app/auth/api.ts''
   \<and> exists auth_unmarked ''app/auth/components/''
   \<and> \<not> fst (verify_completion auth_unmarked ''ui-implementer'' ''app/auth'')
   \<and> \<not> fst (verify_completion auth_types_only ''ui-implementer'' ''app/auth'')"
  using completion_needs_files_and_markers [of auth_foundation "''app/auth''"]
    completion_needs_files_and_markers [of auth_unmarked "''app/auth''"]
    completion_needs_files_and_markers [of auth_types_only "''app/auth''"]
  by (simp add: auth_foundation_def auth_unmarked_def auth_types_only_def
        INTEGRATION_POINT_def sublist_code)

section \<open>Conflict prevention\<close>

text \<open>
  C6, as the code has it. \<open>before_create_file\<close> refuses a creation exactly when the path
  ends with \<open>api.ts\<close>, the file exists and the agent is \<open>feature-logic-implementer\<close>. The
  same agent creating a \<open>types.ts\<close> that exists is let through with a warning.
\<close>

theorem create_guard:
  "((\<exists>e. before_create_file fs agent file_path = Inl e)
      \<longleftrightarrow> suffix ''api.ts'' file_path \<and> exists fs file_path
          \<and> agent = ''feature-logic-implementer'')
   \<and> (suffix ''types.ts'' file_path \<and> exists fs file_path \<longrightarrow>
        before_create_file fs ''feature-logic-implementer'' file_path
          = Inr [''WARNING: Extending existing types.ts. Do not delete existing types.''])"
  by (auto simp add: before_create_file_def suffix_def)

theorem create_guard_witness:
  "(\<exists>e. before_create_file auth_foundation ''feature-logic-implementer'' ''app/auth/api.ts''
          = Inl e)
   \<and> before_create_file auth_foundation ''feature-logic-implementer'' ''app/auth/types.ts''
       = Inr [''WARNING: Extending existing types.ts. Do not delete existing types.'']"
  using create_guard [of auth_foundation "''feature-logic-implementer''" "''app/auth/api.ts''"]
    create_guard [of auth_foundation "''feature-logic-implementer''" "''app/auth/types.ts''"]
  by (simp add: auth_foundation_def suffix_to_prefix)

text \<open>
  C6, as the claim has it, fails: on the complete foundation the logic agent creating the
  existing \<open>types.ts\<close> gets a warning and no error, and creating the existing
  \<open>components/\<close> gets neither.
\<close>

theorem duplicate_create_counterexample:
  "exists auth_foundation ''app/auth/types.ts''
   \<and> before_create_file auth_foundation ''feature-logic-implementer'' ''app/auth/types.ts''
       = Inr [''WARNING: Extending existing types.ts. Do not delete existing types.'']
   \<and> exists auth_foundation ''app/auth/components/''
   \<and> before_create_file auth_foundation ''feature-logic-implementer'' ''app/auth/components/''
       = Inr []"
  by (simp add: before_create_file_def auth_foundation_def suffix_to_prefix)

text \<open>
  C2, as the code has it. \<open>verify_api_signature_unchanged\<close> succeeds exactly when every
  function of the original file is in the modified file with the same signature, and its
  result depends on the modified file through those functions only: a function that the
  modified file adds is never looked at, and never reported.
\<close>

theorem signature_guard_checks_originals_only:
  "(verify_api_signature_unchanged extract original_api modified_api = Inr ()
      \<longleftrightarrow> (\<forall>(func_name, s) \<in> set (extract original_api).
             map_of (extract modified_api) func_name = Some s))
   \<and> ((\<forall>func_name \<in> fst ` set (extract original_api).
          map_of (extract modified_api) func_name = map_of (extract other_api) func_name)
        \<longrightarrow> verify_api_signature_unchanged extract original_api modified_api
            = verify_api_signature_unchanged extract original_api other_api)"
  by (simp add: verify_api_signature_unchanged_def Let_def check_signatures_ok_iff
        check_signatures_only_originals)

text \<open>
  Adding \<open>updateTimeSlot\<close> gives the result of changing nothing, which is success; removing
  it is reported.
\<close>

theorem signature_guard_checks_originals_only_witness:
  "verify_api_signature_unchanged sample_signatures api_before api_after
     = verify_api_signature_unchanged sample_signatures api_before api_before
   \<and> verify_api_signature_unchanged sample_signatures api_before api_after = Inr ()
   \<and> verify_api_signature_unchanged sample_signatures api_after api_before
       = Inl (Error ''Function updateTimeSlot was removed from api.ts'')"
  using signature_guard_checks_originals_only
          [of sample_signatures api_before api_after api_before]
  by (simp add: sample_signatures_def api_before_def api_after_def
        verify_api_signature_unchanged_def)

text \<open>
  C2, as the claim has it, fails: \<open>updateTimeSlot\<close> is not among the signatures before, is
  among the signatures after, and the check succeeds.
\<close>

theorem added_operation_counterexample:
  "map_of (sample_signatures api_before) ''updateTimeSlot'' = None
   \<and> map_of (sample_signatures api_after) ''updateTimeSlot''
       = Some ''(id: string): Promise<void>''
   \<and> verify_api_signature_unchanged sample_signatures api_before api_after = Inr ()"
  by (simp add: sample_signatures_def api_before_def api_after_def
        verify_api_signature_unchanged_def)

text \<open>
  C9. When every function of the original file is in the modified file with the same
  signature, as it is when the signatures before and after are equal,
  \<open>verify_api_signature_unchanged\<close> raises no error.
\<close>

theorem unchanged_signatures_pass:
  "\<forall>(func_name, s) \<in> set (extract original_api).
      map_of (extract modified_api) func_name = Some s \<Longrightarrow>
   verify_api_signature_unchanged extract original_api modified_api = Inr ()"
  by (simp add: verify_api_signature_unchanged_def Let_def check_signatures_ok_iff)

text \<open>
  Before and after are the same file, with \<open>getTimeSlots\<close> and \<open>updateTimeSlot\<close>.
\<close>

theorem unchanged_signatures_pass_witness:
  "sample_signatures api_after
     = [(''getTimeSlots'', ''(): Promise<TimeSlot[]>''),
        (''updateTimeSlot'', ''(id: string): Promise<void>'')]
   \<and> map_of (sample_signatures api_after) ''getTimeSlots'' = Some ''(): Promise<TimeSlot[]>''
   \<and> map_of (sample_signatures api_after) ''updateTimeSlot''
       = Some ''(id: string): Promise<void>''
   \<and> verify_api_signature_unchanged sample_signatures api_after api_after = Inr ()"
proof -
  have h: "\<forall>(func_name, s) \<in> set (sample_signatures api_after).
             map_of (sample_signatures api_after) func_name = Some s"
    by (simp add: sample_signatures_def api_before_def api_after_def)
  from unchanged_signatures_pass [of sample_signatures api_after api_after, OF h]
  show ?thesis by (simp add: sample_signatures_def api_before_def api_after_def)
qed

section \<open>Counting the decisions\<close>

text \<open>
  C7. A call of \<open>route\<close> adds one to \<open>total_requests\<close> and one to exactly one of the five
  routing counters, and leaves the other counters as they were: no counter decreases.
\<close>

theorem route_increments_one_counter:
  assumes "route self fs m ctx g = (decision, g')"
  shows "total_requests (counters g') = total_requests (counters g) + 1
         \<and> (\<exists>i<5. routing_counters (counters g')
                     = (routing_counters (counters g))
                         [i := routing_counters (counters g) ! i + 1])
         \<and> (\<forall>i<5. routing_counters (counters g) ! i \<le> routing_counters (counters g') ! i)
         \<and> successful_collaborations (counters g') = successful_collaborations (counters g)
         \<and> history g' = history g @ [(m, decision)]"
proof -
  have d: "decision = route_request self fs m ctx"
    and g': "g' = \<lparr> counters = record_decision decision (counters g),
                    history = history g @ [(m, decision)] \<rparr>"
    using assms by (auto simp add: route_def Let_def)
  have five: "\<And>P. (\<forall>i<5::nat. P i) \<longleftrightarrow> P 0 \<and> P 1 \<and> P 2 \<and> P 3 \<and> P 4"
    by (auto simp add: numeral_eq_Suc less_Suc_eq)
  consider "decision = ''ui-implementer''" | "decision = ''feature-logic-implementer''"
    | "decision = ''error:missing_ui_foundation''"
    using route_request_cases [of self fs m ctx] d by auto
  then show ?thesis
  proof cases
    case 1
    have "routing_counters (counters g')
            = (routing_counters (counters g))[0 := routing_counters (counters g) ! 0 + 1]"
      by (simp add: g' 1 record_decision_def routing_counters_def Let_def)
    then have "\<exists>i<5. routing_counters (counters g')
                     = (routing_counters (counters g))
                         [i := routing_counters (counters g) ! i + 1]"
      by (intro exI [of _ 0]) simp
    then show ?thesis
      by (simp add: g' 1 record_decision_def Let_def five) (simp add: routing_counters_def)
  next
    case 2
    have "routing_counters (counters g')
            = (routing_counters (counters g))[1 := routing_counters (counters g) ! 1 + 1]"
      by (simp add: g' 2 record_decision_def routing_counters_def Let_def)
    then have "\<exists>i<5. routing_counters (counters g')
                     = (routing_counters (counters g))
                         [i := routing_counters (counters g) ! i + 1]"
      by (intro exI [of _ 1]) simp
    then show ?thesis
      by (simp add: g' 2 record_decision_def Let_def five) (simp add: routing_counters_def)
  next
    case 3
    have "routing_counters (counters g')
            = (routing_counters (counters g))[2 := routing_counters (counters g) ! 2 + 1]"
      by (simp add: g' 3 record_decision_def routing_counters_def Let_def)
    then have "\<exists>i<5. routing_counters (counters g')
                     = (routing_counters (counters g))
                         [i := routing_counters (counters g) ! i + 1]"
      by (intro exI [of _ 2]) simp
    then show ?thesis
      by (simp add: g' 3 record_decision_def Let_def five) (simp add: routing_counters_def)
  qed
qed

text \<open>
  From the counters at zero, the request \<open>"UI"\<close> on no file counts in \<open>routed_to_ui\<close> and
  in \<open>total_requests\<close>.
\<close>

theorem route_increments_one_counter_witness:
  "route test_router no_files [0x55, 0x49] test_context \<lparr> counters = METRICS, history = [] \<rparr>
     = (''ui-implementer'',
        \<lparr> counters = METRICS \<lparr> total_requests := 1, routed_to_ui := 1 \<rparr>,
          history = [([0x55, 0x49], ''ui-implementer'')] \<rparr>)
   \<and> total_requests (METRICS \<lparr> total_requests := 1, routed_to_ui := 1 \<rparr>)
       = total_requests METRICS + 1
   \<and> routing_counters (METRICS \<lparr> total_requests := 1, routed_to_ui := 1 \<rparr>)
       = (routing_counters METRICS)[0 := routing_counters METRICS ! 0 + 1]"
proof -
  have h: "route test_router no_files [0x55, 0x49] test_context
             \<lparr> counters = METRICS, history = [] \<rparr>
           = (''ui-implementer'',
              \<lparr> counters = METRICS \<lparr> total_requests := 1, routed_to_ui := 1 \<rparr>,
                history = [([0x55, 0x49], ''ui-implementer'')] \<rparr>)"
    by (simp add: route_def route_request_def classify_UI record_decision_def METRICS_def
          Let_def)
  from route_increments_one_counter [OF h] h show ?thesis
    by (simp add: routing_counters_def METRICS_def)
qed

end
